theory Spec2Isabelle
  imports Complex_Main
begin

section \<open>Python values\<close>

text \<open>
  The handler of \<^verbatim>\<open>src/func/main.py\<close> works on values decoded from JSON. A decoded
  value is \<open>None\<close>, a bool, an int, a float, a str, a list or a dict with string keys.
  A dict is an association list read with \<open>map_of\<close>; a Python dict corresponds to one
  with distinct keys. A finite float is represented by the rational number it denotes,
  which is enough for the only operation applied to floats here, comparison with \<open>True\<close>.
\<close>

datatype pyfloat = Finite rat | PosInfinity | NegInfinity | NaN

datatype pyval =
    PNone
  | PBool bool
  | PInt int
  | PFloat pyfloat
  | PStr string
  | PList "pyval list"
  | PDict "(string \<times> pyval) list"

text \<open>
  The exceptions of a run. \<open>JSONDecodeError\<close> stands for both \<open>json.JSONDecodeError\<close> and
  \<open>requests.exceptions.JSONDecodeError\<close>, the only exception the handler catches around a
  decoder; a decoder can also raise \<open>RecursionError\<close> (deep nesting) or a plain \<open>ValueError\<close>
  (an integer literal beyond the digit limit), which the handler does not catch.
\<close>

datatype exn =
    UnboundLocalError string
  | KeyError string
  | TypeError
  | JSONDecodeError
  | RecursionError
  | ValueError
  | RequestException
  | DefaultCredentialsError
  | GoogleAPICallError

text \<open>\<open>v[k]\<close> with a string key: only a dict accepts it, and only for a key it holds.\<close>

fun py_getitem :: "pyval \<Rightarrow> string \<Rightarrow> exn + pyval" where
  "py_getitem (PDict kvs) k = (case map_of kvs k of None \<Rightarrow> Inl (KeyError k) | Some v \<Rightarrow> Inr v)"
| "py_getitem _ k = Inl TypeError"

text \<open>\<open>v[k1][k2]...\<close>, evaluated left to right.\<close>

fun py_subscripts :: "pyval \<Rightarrow> string list \<Rightarrow> exn + pyval" where
  "py_subscripts v [] = Inr v"
| "py_subscripts v (k # ks) =
     (case py_getitem v k of Inl e \<Rightarrow> Inl e | Inr v' \<Rightarrow> py_subscripts v' ks)"

text \<open>\<open>needle in hay\<close> for two strings: the substring test.\<close>

fun substring_of :: "string \<Rightarrow> string \<Rightarrow> bool" where
  "substring_of needle [] = (needle = [])"
| "substring_of needle (c # cs) =
     (if take (length needle) (c # cs) = needle then True else substring_of needle cs)"

text \<open>
  \<open>s in v\<close> for a string \<open>s\<close>: key membership in a dict, element equality in a list,
  the substring test in a str, and a TypeError for values that are not containers.
\<close>

fun py_contains :: "pyval \<Rightarrow> string \<Rightarrow> exn + bool" where
  "py_contains (PDict kvs) s = Inr (s \<in> set (map fst kvs))"
| "py_contains (PList vs) s = Inr (PStr s \<in> set vs)"
| "py_contains (PStr hay) s = Inr (substring_of s hay)"
| "py_contains _ s = Inl TypeError"

text \<open>\<open>v == True\<close>: Python's bool is a subtype of int, and numbers compare by value.\<close>

fun py_eq_True :: "pyval \<Rightarrow> bool" where
  "py_eq_True (PBool b) = b"
| "py_eq_True (PInt i) = (i = 1)"
| "py_eq_True (PFloat f) = (f = Finite 1)"
| "py_eq_True _ = False"

text \<open>\<open>prefix + v\<close> for a string prefix: a TypeError unless \<open>v\<close> is a str.\<close>

fun py_concat :: "string \<Rightarrow> pyval \<Rightarrow> exn + string" where
  "py_concat prefix (PStr s) = Inr (prefix @ s)"
| "py_concat prefix _ = Inl TypeError"

section \<open>The environment of one invocation\<close>

text \<open>
  Everything the handler reads from outside the repository is a field of \<open>world\<close>, and every
  such call can raise: \<open>Inl\<close> is the exception, \<open>Inr\<close> the value returned.
  \<^item> \<open>environ\<close>: the process environment.
  \<^item> \<open>json_loads\<close>: \<open>json.loads\<close>.
  \<^item> \<open>humanized_error\<close>: the text \<open>str(e)\<close> of the voluptuous error raised for data that fails
    the schema; building it takes the \<open>repr\<close> of the offending value, which can raise.
  \<^item> \<open>builtin_str\<close>: Python's \<open>str()\<close> on a value that is not a string.
  \<^item> \<open>pprint_pformat\<close>: \<open>pprint.pformat\<close>, which raises RecursionError on a deeply nested value.
  \<^item> \<open>requests_get\<close>: \<open>requests.get\<close>; the call itself raises on a connection failure or a
    timeout.
  \<^item> \<open>IAMCredentialsClient\<close>: the constructor of the IAM credentials client; the client maps a
    name and a scope list to the access token or to the exception of the call.

  A response of \<open>requests.get\<close> has a status code, and \<open>json\<close> is the outcome of \<open>resp.json()\<close>.

  The message of a log call is built before the call, whatever the log level. The f-strings
  of lines 124, 147 and 178 hold \<open>pprint.pformat\<close> of a decoded body and the f-string of line
  155 holds the run status: an exception raised while they are built leaves the handler, so
  they are part of the model. Every other log message is built from strings and from values
  formatted before (lines 184 and 185 format again what line 182 has formatted), and the
  logger does not raise: those calls are left out.
\<close>

record response =
  status_code :: int
  json :: "exn + pyval"

type_synonym headers = "(string \<times> string) list"

type_synonym iam_client = "string \<Rightarrow> string list \<Rightarrow> exn + string"

record world =
  environ :: "string \<Rightarrow> string option"
  json_loads :: "string \<Rightarrow> exn + pyval"
  humanized_error :: "pyval \<Rightarrow> exn + string"
  builtin_str :: "pyval \<Rightarrow> exn + string"
  pprint_pformat :: "pyval \<Rightarrow> exn + string"
  requests_get :: "string \<Rightarrow> headers \<Rightarrow> exn + response"
  IAMCredentialsClient :: "exn + iam_client"

text \<open>
  The inbound request, as far as the handler looks at it: the outcome of
  \<open>request.get_json(silent=True)\<close>, which returns \<open>None\<close> for a missing or unparseable body
  and lets an exception of the decoder other than a ValueError through.
\<close>

record request =
  get_json :: "exn + pyval"

text \<open>The outbound calls an invocation makes, in order, and how it ends.\<close>

datatype call =
    HttpGet string headers
  | GenerateAccessToken string "string list"

datatype outcome =
    Returns pyval "int option"
  | Raised exn

type_synonym result = "call list \<times> outcome"

definition calling :: "call \<Rightarrow> call list \<times> 'a \<Rightarrow> call list \<times> 'a" where
  "calling c r = (c # fst r, snd r)"

text \<open>
  The handler returns either a pair of a body and a status code or, on success, the
  body alone, which the HTTP framework sends with its default status 200. An uncaught
  exception is no response of the handler.
\<close>

fun http_status :: "outcome \<Rightarrow> int option" where
  "http_status (Returns body (Some code)) = Some code"
| "http_status (Returns body None) = Some 200"
| "http_status (Raised e) = None"

fun body_of :: "outcome \<Rightarrow> pyval option" where
  "body_of (Returns body code) = Some body"
| "body_of (Raised e) = None"

text \<open>\<open>resp.raise_for_status()\<close> raises HTTPError exactly for the statuses 400 to 599.\<close>

definition raise_for_status :: "response \<Rightarrow> bool" where
  "raise_for_status resp = (400 \<le> status_code resp \<and> status_code resp < 600)"

text \<open>An f-string field \<open>{v}\<close>: a str is inserted as it is, any other value through \<open>str()\<close>.\<close>

definition py_format :: "world \<Rightarrow> pyval \<Rightarrow> exn + string" where
  "py_format w v = (case v of PStr s \<Rightarrow> Inr s | _ \<Rightarrow> builtin_str w v)"

section \<open>Module constants\<close>

definition RUNS_BASE_URL :: string where
  "RUNS_BASE_URL = ''https://app.terraform.io/api/v2/runs/''"

definition WORKSPACE_BASE_URL :: string where
  "WORKSPACE_BASE_URL = ''https://app.terraform.io/api/v2/workspaces/''"

definition ACCOUNT_URL :: string where
  "ACCOUNT_URL = ''https://app.terraform.io/api/v2/account/details''"

definition GOOGLE_DEFAULT_AUTH_SCOPES :: "string list" where
  "GOOGLE_DEFAULT_AUTH_SCOPES = [''https://www.googleapis.com/auth/cloud-platform'']"

definition BAD_GATEWAY :: outcome where
  "BAD_GATEWAY =
     Returns (PDict [(''status'', PStr ''error''),
                     (''msg'', PStr ''Bad Gateway''),
                     (''token'', PNone)]) (Some 502)"

definition SA_MAPPING :: "world \<Rightarrow> string" where
  "SA_MAPPING w = (case environ w ''SA_MAPPING_CONFIG'' of None \<Rightarrow> ''{}'' | Some s \<Rightarrow> s)"

text \<open>
  \<open>REQUEST_SCHEMA\<close> requires the keys \<open>TFC_TOKEN\<close> and \<open>RUN_ID\<close>, both of type str, and
  with \<open>extra=False\<close> allows no other key. It is represented by its list of required keys.
\<close>

definition REQUEST_SCHEMA :: "string list" where
  "REQUEST_SCHEMA = [''TFC_TOKEN'', ''RUN_ID'']"

fun is_str :: "pyval \<Rightarrow> bool" where
  "is_str (PStr s) = True"
| "is_str _ = False"

fun schema_accepts :: "string list \<Rightarrow> pyval \<Rightarrow> bool" where
  "schema_accepts required (PDict kvs) =
     (list_all (\<lambda>kv. fst kv \<in> set required \<and> is_str (snd kv)) kvs \<and>
      list_all (\<lambda>k. k \<in> set (map fst kvs)) required)"
| "schema_accepts required _ = False"

text \<open>
  \<open>Inr None\<close> when the data passes; \<open>Inr (Some msg)\<close> when it raises the voluptuous error the
  handler catches, \<open>msg\<close> being its text \<open>str(e)\<close>; \<open>Inl\<close> when building that text raises.
\<close>

definition validate_with_humanized_errors ::
  "world \<Rightarrow> pyval \<Rightarrow> string list \<Rightarrow> exn + string option" where
  "validate_with_humanized_errors w data schema =
     (if schema_accepts schema data then Inr None
      else (case humanized_error w data of Inl e \<Rightarrow> Inl e | Inr msg \<Rightarrow> Inr (Some msg)))"

text \<open>Joining the lines of a text with a semicolon and a space, as line 87 does.\<close>

definition join_lines :: "string \<Rightarrow> string" where
  "join_lines s = concat (map (\<lambda>c. if c = CHR 0x0A then ''; '' else [c]) s)"

section \<open>The handler\<close>

text \<open>\<open>get_sa_token\<close>, lines 50 to 61.\<close>

definition get_sa_token :: "world \<Rightarrow> pyval \<Rightarrow> string \<Rightarrow> call list \<times> (exn + string)" where
  "get_sa_token w creds_mapping tfc_ws_slug =
     (case py_getitem creds_mapping tfc_ws_slug of
        Inl e \<Rightarrow> ([], Inl e)
      | Inr mapped \<Rightarrow>
          (case py_format w mapped of
             Inl e \<Rightarrow> ([], Inl e)
           | Inr identity \<Rightarrow>
               (let sa_ref = ''projects/-/serviceAccounts/'' @ identity in
                case IAMCredentialsClient w of
                  Inl e \<Rightarrow> ([], Inl e)
                | Inr iam \<Rightarrow>
                    ([GenerateAccessToken sa_ref GOOGLE_DEFAULT_AUTH_SCOPES],
                     iam sa_ref GOOGLE_DEFAULT_AUTH_SCOPES))))"

text \<open>
  \<open>generate_token\<close> is one function in the source. It is written here in five parts,
  last part first; each part is the rest of the function body from the given line on.
  Lines 188 to 198: the mapping lookup and the mint.
\<close>

definition generate_token_mint :: "world \<Rightarrow> pyval \<Rightarrow> string \<Rightarrow> result" where
  "generate_token_mint w parsed_mapping ws_slug =
     (case py_contains parsed_mapping ws_slug of
        Inl e \<Rightarrow> ([], Raised e)
      | Inr present \<Rightarrow>
          if \<not> present then
            ([], Returns (PDict [(''status'', PStr ''error''),
                                 (''msg'', PStr (''no identity for workspace: '' @ ws_slug)),
                                 (''token'', PNone)]) (Some 404))
          else
            (case get_sa_token w parsed_mapping ws_slug of
               (calls, Inl e) \<Rightarrow> (calls, Raised e)
             | (calls, Inr access_token) \<Rightarrow>
                 (calls, Returns (PDict [(''status'', PStr ''success''),
                                         (''token'', PStr access_token)]) None)))"

text \<open>
  Lines 162 to 186: the workspace details call, the debug line with \<open>pprint.pformat\<close> of the
  decoded body (line 178) and the slug (line 182).
\<close>

definition generate_token_workspace :: "world \<Rightarrow> headers \<Rightarrow> pyval \<Rightarrow> pyval \<Rightarrow> result" where
  "generate_token_workspace w hdrs parsed_mapping tfc_ws_id =
     (case py_concat WORKSPACE_BASE_URL tfc_ws_id of
        Inl e \<Rightarrow> ([], Raised e)
      | Inr url \<Rightarrow>
          calling (HttpGet url hdrs)
            (case requests_get w url hdrs of
               Inl e \<Rightarrow> ([], Raised e)
             | Inr resp \<Rightarrow>
                 if raise_for_status resp then ([], BAD_GATEWAY)
                 else
                   (case json resp of
                      Inl e \<Rightarrow> if e = JSONDecodeError then ([], BAD_GATEWAY) else ([], Raised e)
                    | Inr ws_json \<Rightarrow>
                        (case pprint_pformat w ws_json of
                           Inl e \<Rightarrow> ([], Raised e)
                         | Inr logged \<Rightarrow>
                        (case py_subscripts ws_json
                                [''data'', ''relationships'', ''organization'', ''data'', ''id''] of
                           Inl e \<Rightarrow> ([], Raised e)
                         | Inr tfc_org \<Rightarrow>
                        (case py_subscripts ws_json [''data'', ''attributes'', ''name''] of
                           Inl e \<Rightarrow> ([], Raised e)
                         | Inr tfc_ws_name \<Rightarrow>
                        (case py_format w tfc_org of
                           Inl e \<Rightarrow> ([], Raised e)
                         | Inr org \<Rightarrow>
                        (case py_format w tfc_ws_name of
                           Inl e \<Rightarrow> ([], Raised e)
                         | Inr name \<Rightarrow>
                             generate_token_mint w parsed_mapping (org @ ''/'' @ name)))))))))"

text \<open>
  Lines 132 to 160: the run details call, the debug line with \<open>pprint.pformat\<close> of the
  decoded body (line 147), the two reads and the run status. The HTTPError of
  \<open>raise_for_status\<close> is caught and only logged (lines 136 to 139): whatever the status
  code of the answer, the handler goes on to decode the body, so the status code does not
  occur in this part. The warning of lines 155 and 156 formats the run status.
\<close>

definition generate_token_run :: "world \<Rightarrow> headers \<Rightarrow> pyval \<Rightarrow> pyval \<Rightarrow> result" where
  "generate_token_run w hdrs parsed_mapping tfc_run_id =
     (case py_concat RUNS_BASE_URL tfc_run_id of
        Inl e \<Rightarrow> ([], Raised e)
      | Inr url \<Rightarrow>
          calling (HttpGet url hdrs)
            (case requests_get w url hdrs of
               Inl e \<Rightarrow> ([], Raised e)
             | Inr resp \<Rightarrow>
                 (case json resp of
                    Inl e \<Rightarrow> if e = JSONDecodeError then ([], BAD_GATEWAY) else ([], Raised e)
                  | Inr run_json \<Rightarrow>
                      (case pprint_pformat w run_json of
                         Inl e \<Rightarrow> ([], Raised e)
                       | Inr logged \<Rightarrow>
                      (case py_subscripts run_json [''data'', ''attributes'', ''status''] of
                         Inl e \<Rightarrow> ([], Raised e)
                       | Inr run_status \<Rightarrow>
                      (case py_subscripts run_json
                              [''data'', ''relationships'', ''workspace'', ''data'', ''id''] of
                         Inl e \<Rightarrow> ([], Raised e)
                       | Inr tfc_ws_id \<Rightarrow>
                           if run_status \<notin> set [PStr ''planning'', PStr ''applying''] then
                             (case py_format w run_status of
                                Inl e \<Rightarrow> ([], Raised e)
                              | Inr shown \<Rightarrow>
                                  ([], Returns (PDict [(''status'', PStr ''error''),
                                                       (''msg'', PStr ''run status not planning or applying''),
                                                       (''token'', PNone)]) (Some 400)))
                           else generate_token_workspace w hdrs parsed_mapping tfc_ws_id))))))"

text \<open>
  Lines 99 to 130: the account details call, the debug line with \<open>pprint.pformat\<close> of the
  decoded body (line 124) and the service account test.
\<close>

definition generate_token_account :: "world \<Rightarrow> pyval \<Rightarrow> pyval \<Rightarrow> pyval \<Rightarrow> result" where
  "generate_token_account w parsed_mapping tfc_token tfc_run_id =
     (case py_format w tfc_token of
        Inl e \<Rightarrow> ([], Raised e)
      | Inr token_text \<Rightarrow>
     (let hdrs = [(''Authorization'', ''Bearer '' @ token_text)] in
      calling (HttpGet ACCOUNT_URL hdrs)
        (case requests_get w ACCOUNT_URL hdrs of
           Inl e \<Rightarrow> ([], Raised e)
         | Inr resp \<Rightarrow>
             if raise_for_status resp then
               (if status_code resp = 401 then
                  ([], Returns (PDict [(''status'', PStr ''error''),
                                       (''msg'', PStr ''Unauthorized''),
                                       (''token'', PNone)]) (Some 401))
                else ([], BAD_GATEWAY))
             else
               (case json resp of
                  Inl e \<Rightarrow> if e = JSONDecodeError then ([], BAD_GATEWAY) else ([], Raised e)
                | Inr sess_json \<Rightarrow>
                    (case pprint_pformat w sess_json of
                       Inl e \<Rightarrow> ([], Raised e)
                     | Inr logged \<Rightarrow>
                    (case py_subscripts sess_json
                            [''data'', ''attributes'', ''is-service-account''] of
                       Inl e \<Rightarrow> ([], Raised e)
                     | Inr flag \<Rightarrow>
                         if \<not> py_eq_True flag then
                           ([], Returns (PDict [(''status'', PStr ''error''),
                                                (''msg'', PStr ''Token does not belong to a service account''),
                                                (''token'', PNone)]) (Some 400))
                         else generate_token_run w hdrs parsed_mapping tfc_run_id))))))"

text \<open>
  Lines 66 to 97. When \<open>json.loads\<close> raises JSONDecodeError, the handler logs a warning and
  goes on with \<open>parsed_mapping\<close> unassigned; reading it on line 71 raises UnboundLocalError.
  Any other exception of \<open>json.loads\<close> leaves the handler at line 67. After the schema check
  both request fields are strings.
\<close>

definition generate_token :: "world \<Rightarrow> request \<Rightarrow> result" where
  "generate_token w req =
     (case json_loads w (SA_MAPPING w) of
        Inl e \<Rightarrow>
          if e = JSONDecodeError then ([], Raised (UnboundLocalError ''parsed_mapping''))
          else ([], Raised e)
      | Inr parsed_mapping \<Rightarrow>
          (case get_json req of
             Inl e \<Rightarrow> ([], Raised e)
           | Inr request_json \<Rightarrow>
           if request_json = PNone then
             ([], Returns (PDict [(''status'', PStr ''error''),
                                  (''message'', PStr ''invalid or missing JSON request body'')])
                          (Some 400))
           else
             (case validate_with_humanized_errors w request_json REQUEST_SCHEMA of
                Inl e \<Rightarrow> ([], Raised e)
              | Inr (Some e) \<Rightarrow>
                  ([], Returns (PDict [(''status'', PStr ''error''),
                                       (''message'',
                                        PStr (''Invalid JSON schema in request body from client''
                                              @ '': '' @ join_lines e)),
                                       (''token'', PNone)]) (Some 400))
              | Inr None \<Rightarrow>
                  (case py_getitem request_json ''TFC_TOKEN'' of
                     Inl e \<Rightarrow> ([], Raised e)
                   | Inr tfc_token \<Rightarrow>
                       (case py_getitem request_json ''RUN_ID'' of
                          Inl e \<Rightarrow> ([], Raised e)
                        | Inr tfc_run_id \<Rightarrow>
                            generate_token_account w parsed_mapping tfc_token tfc_run_id)))))"

section \<open>Vocabulary of the claims\<close>

text \<open>The headers every outbound HTTP call of one invocation carries (line 102).\<close>

abbreviation bearer :: "string \<Rightarrow> headers" where
  "bearer tok \<equiv> [(''Authorization'', ''Bearer '' @ tok)]"

text \<open>
  A request whose body decodes, passes \<open>REQUEST_SCHEMA\<close> and carries the given token and run
  id.
\<close>

definition request_carries :: "request \<Rightarrow> string \<Rightarrow> string \<Rightarrow> bool" where
  "request_carries req tfc_token tfc_run_id =
     (case get_json req of
        Inl e \<Rightarrow> False
      | Inr request_json \<Rightarrow>
          schema_accepts REQUEST_SCHEMA request_json \<and>
          py_getitem request_json ''TFC_TOKEN'' = Inr (PStr tfc_token) \<and>
          py_getitem request_json ''RUN_ID'' = Inr (PStr tfc_run_id))"

text \<open>
  The shape the specification gives every error body: the marker \<open>status: error\<close>, the key
  \<open>token\<close> with the value \<open>None\<close>, and a string message under \<open>msg\<close> or \<open>message\<close>. An outcome has
  its errors marked when it is no response with an explicit status code, or its body has
  that shape.
\<close>

definition error_marked :: "pyval \<Rightarrow> bool" where
  "error_marked body =
     (py_getitem body ''status'' = Inr (PStr ''error'') \<and>
      py_getitem body ''token'' = Inr PNone \<and>
      (case py_getitem body ''msg'' of
         Inr m \<Rightarrow> is_str m
       | Inl e \<Rightarrow> (case py_getitem body ''message'' of Inr m \<Rightarrow> is_str m | Inl e' \<Rightarrow> False)))"

fun errors_marked :: "outcome \<Rightarrow> bool" where
  "errors_marked (Returns body (Some code)) = error_marked body"
| "errors_marked (Returns body None) = True"
| "errors_marked (Raised e) = True"

text \<open>The nesting depth of a value, and a value wrapped in a number of lists.\<close>

fun depth :: "pyval \<Rightarrow> nat" where
  "depth (PList vs) = Suc (foldr max (map depth vs) 0)"
| "depth (PDict kvs) = Suc (foldr max (map (\<lambda>kv. depth (snd kv)) kvs) 0)"
| "depth _ = 0"

fun nest :: "nat \<Rightarrow> pyval \<Rightarrow> pyval" where
  "nest 0 v = v"
| "nest (Suc n) v = PList [nest n v]"

section \<open>A concrete environment\<close>

text \<open>
  The scenario of the specification: a body with \<open>TFC_TOKEN\<close> t1 and \<open>RUN_ID\<close> run-123, the
  account API answers \<open>is-service-account: true\<close>, the run API status planning with workspace
  \<open>ws-1\<close>, the workspace API organization \<open>org-a\<close> and name \<open>prod\<close>, and the mapping sends
  \<open>org-a/prod\<close> to \<open>sa1@proj.iam\<close>. \<open>demo_world\<close> takes the configuration value and the three
  HTTP answers as parameters, and the bodies take the service account flag, the run status
  and the workspace name as parameters, so that each of them can be varied; \<open>with_meta\<close> adds
  a key \<open>meta\<close> to a body. In this environment \<open>pprint.pformat\<close> raises RecursionError from a
  nesting depth of 330 on, which is where CPython 3.11 with its default recursion limit gives
  up on such a body. The text \<open>pprint.pformat\<close> returns and the text of \<open>str()\<close> on a value other
  than \<open>None\<close> and the booleans are placeholders: the scenario uses them in log lines only.
\<close>

definition quoted :: "string \<Rightarrow> string" where
  "quoted s = CHR 0x22 # s @ [CHR 0x22]"

definition demo_config :: string where
  "demo_config = ''{'' @ quoted ''org-a/prod'' @ '': '' @ quoted ''sa1@proj.iam'' @ ''}''"

definition demo_mapping :: pyval where
  "demo_mapping = PDict [(''org-a/prod'', PStr ''sa1@proj.iam'')]"

definition demo_loads :: "string \<Rightarrow> exn + pyval" where
  "demo_loads s =
     (if s = ''{}'' then Inr (PDict [])
      else if s = demo_config then Inr demo_mapping
      else Inl JSONDecodeError)"

definition demo_str :: "pyval \<Rightarrow> exn + string" where
  "demo_str v =
     (if v = PNone then Inr ''None''
      else if v = PBool True then Inr ''True''
      else if v = PBool False then Inr ''False''
      else Inr ''...'')"

definition demo_pformat :: "pyval \<Rightarrow> exn + string" where
  "demo_pformat v = (if 330 \<le> depth v then Inl RecursionError else Inr ''formatted'')"

definition demo_session_json :: "pyval \<Rightarrow> pyval" where
  "demo_session_json flag =
     PDict [(''data'', PDict [(''attributes'', PDict [(''is-service-account'', flag)])])]"

definition demo_run_json :: "pyval \<Rightarrow> pyval" where
  "demo_run_json run_status =
     PDict [(''data'', PDict
       [(''attributes'', PDict [(''status'', run_status)]),
        (''relationships'', PDict [(''workspace'',
           PDict [(''data'', PDict [(''id'', PStr ''ws-1'')])])])])]"

definition demo_workspace_json :: "string \<Rightarrow> pyval" where
  "demo_workspace_json name =
     PDict [(''data'', PDict
       [(''attributes'', PDict [(''name'', PStr name)]),
        (''relationships'', PDict [(''organization'',
           PDict [(''data'', PDict [(''id'', PStr ''org-a'')])])])])]"

fun with_meta :: "pyval \<Rightarrow> pyval \<Rightarrow> pyval" where
  "with_meta (PDict kvs) v = PDict (kvs @ [(''meta'', v)])"
| "with_meta body v = body"

definition demo_account :: response where
  "demo_account = \<lparr>status_code = 200, json = Inr (demo_session_json (PBool True))\<rparr>"

definition demo_run :: response where
  "demo_run = \<lparr>status_code = 200, json = Inr (demo_run_json (PStr ''planning''))\<rparr>"

definition demo_workspace :: response where
  "demo_workspace = \<lparr>status_code = 200, json = Inr (demo_workspace_json ''prod'')\<rparr>"

definition demo_world ::
  "string option \<Rightarrow> (exn + response) \<Rightarrow> (exn + response) \<Rightarrow> (exn + response) \<Rightarrow> world" where
  "demo_world config account run workspace =
     \<lparr>environ = (\<lambda>name. if name = ''SA_MAPPING_CONFIG'' then config else None),
      json_loads = demo_loads,
      humanized_error = (\<lambda>data. Inr ''expected a dictionary''),
      builtin_str = demo_str,
      pprint_pformat = demo_pformat,
      requests_get = (\<lambda>url hdrs.
         if url = ''https://app.terraform.io/api/v2/account/details'' then account
         else if url = ''https://app.terraform.io/api/v2/runs/run-123'' then run
         else if url = ''https://app.terraform.io/api/v2/workspaces/ws-1'' then workspace
         else Inl RequestException),
      IAMCredentialsClient = Inr (\<lambda>name scope. Inr ''ya29.minted'')\<rparr>"

definition demo_request :: request where
  "demo_request =
     \<lparr>get_json = Inr (PDict [(''TFC_TOKEN'', PStr ''t1''), (''RUN_ID'', PStr ''run-123'')])\<rparr>"

lemmas demo_defs = demo_world_def demo_request_def demo_loads_def demo_config_def quoted_def
  demo_mapping_def demo_account_def demo_run_def demo_workspace_def demo_session_json_def
  demo_run_json_def demo_workspace_json_def demo_pformat_def demo_str_def

lemmas handler_defs = generate_token_def generate_token_account_def generate_token_run_def
  generate_token_workspace_def generate_token_mint_def get_sa_token_def
  validate_with_humanized_errors_def SA_MAPPING_def REQUEST_SCHEMA_def ACCOUNT_URL_def
  RUNS_BASE_URL_def WORKSPACE_BASE_URL_def GOOGLE_DEFAULT_AUTH_SCOPES_def BAD_GATEWAY_def
  raise_for_status_def py_format_def calling_def join_lines_def Let_def

lemma depth_nest: "depth (nest n v) = n + depth v"
  by (induction n) simp_all

lemma py_format_str: "py_format w (PStr s) = Inr s"
  by (simp add: py_format_def)

lemma demo_loads_config:
  "json_loads (demo_world (Some demo_config) a r k)
     (SA_MAPPING (demo_world (Some demo_config) a r k)) = Inr demo_mapping"
  by (simp add: demo_world_def demo_loads_def demo_config_def quoted_def SA_MAPPING_def)

lemma demo_loads_default:
  "json_loads (demo_world None a r k) (SA_MAPPING (demo_world None a r k)) = Inr (PDict [])"
  by (simp add: demo_world_def demo_loads_def SA_MAPPING_def)

lemma demo_request_carries: "request_carries demo_request ''t1'' ''run-123''"
  by (simp add: request_carries_def demo_request_def REQUEST_SCHEMA_def)

lemma demo_get_account: "requests_get (demo_world c a r k) ACCOUNT_URL hdrs = a"
  by (simp add: demo_world_def ACCOUNT_URL_def)

lemma demo_get_run: "requests_get (demo_world c a r k) (RUNS_BASE_URL @ ''run-123'') hdrs = r"
  by (simp add: demo_world_def RUNS_BASE_URL_def)

lemma demo_get_workspace:
  "requests_get (demo_world c a r k) (WORKSPACE_BASE_URL @ ''ws-1'') hdrs = k"
  by (simp add: demo_world_def WORKSPACE_BASE_URL_def)

lemma demo_pformat_shallow:
  "depth v < 330 \<Longrightarrow> pprint_pformat (demo_world c a r k) v = Inr ''formatted''"
  by (simp add: demo_world_def demo_pformat_def)

lemma demo_pformat_deep:
  "330 \<le> depth v \<Longrightarrow> pprint_pformat (demo_world c a r k) v = Inl RecursionError"
  by (simp add: demo_world_def demo_pformat_def)

lemma demo_pformat_session:
  "depth flag < 300 \<Longrightarrow>
   pprint_pformat (demo_world c a r k) (demo_session_json flag) = Inr ''formatted''"
  by (rule demo_pformat_shallow) (simp add: demo_session_json_def)

lemma demo_pformat_run:
  "depth run_status < 300 \<Longrightarrow>
   pprint_pformat (demo_world c a r k) (demo_run_json run_status) = Inr ''formatted''"
  by (rule demo_pformat_shallow) (simp add: demo_run_json_def)

lemma demo_pformat_workspace:
  "pprint_pformat (demo_world c a r k) (demo_workspace_json name) = Inr ''formatted''"
  by (rule demo_pformat_shallow) (simp add: demo_workspace_json_def)

lemma demo_session_flag:
  "py_subscripts (demo_session_json flag) [''data'', ''attributes'', ''is-service-account'']
     = Inr flag"
  by (simp add: demo_session_json_def)

lemma demo_run_status:
  "py_subscripts (demo_run_json run_status) [''data'', ''attributes'', ''status'']
     = Inr run_status"
  by (simp add: demo_run_json_def)

lemma demo_run_workspace_id:
  "py_subscripts (demo_run_json run_status)
     [''data'', ''relationships'', ''workspace'', ''data'', ''id''] = Inr (PStr ''ws-1'')"
  by (simp add: demo_run_json_def)

lemma demo_workspace_org:
  "py_subscripts (demo_workspace_json name)
     [''data'', ''relationships'', ''organization'', ''data'', ''id''] = Inr (PStr ''org-a'')"
  by (simp add: demo_workspace_json_def)

lemma demo_workspace_name:
  "py_subscripts (demo_workspace_json name) [''data'', ''attributes'', ''name'']
     = Inr (PStr name)"
  by (simp add: demo_workspace_json_def)

lemma demo_account_passes:
  "\<not> raise_for_status demo_account"
  "json demo_account = Inr (demo_session_json (PBool True))"
  "pprint_pformat (demo_world c a r k) (demo_session_json (PBool True)) = Inr ''formatted''"
  by (simp_all add: demo_account_def raise_for_status_def demo_pformat_session)

lemma demo_run_passes:
  "json demo_run = Inr (demo_run_json (PStr ''planning''))"
  "pprint_pformat (demo_world c a r k) (demo_run_json (PStr ''planning'')) = Inr ''formatted''"
  by (simp_all add: demo_run_def demo_pformat_run)

lemma demo_workspace_passes:
  "\<not> raise_for_status demo_workspace"
  "json demo_workspace = Inr (demo_workspace_json ''prod'')"
  "pprint_pformat (demo_world c a r k) (demo_workspace_json ''prod'') = Inr ''formatted''"
  by (simp_all add: demo_workspace_def raise_for_status_def demo_pformat_workspace)

section \<open>Passing from one part of the handler to the next\<close>

lemma schema_accepts_field_is_str:
  assumes "schema_accepts required request_json"
    and "py_getitem request_json k = Inr v"
  shows "is_str v"
proof (cases request_json)
  case (PDict kvs)
  with assms(2) have "map_of kvs k = Some v"
    by (simp split: option.splits)
  then have "(k, v) \<in> set kvs"
    by (rule map_of_SomeD)
  with assms(1) PDict show ?thesis
    by (auto simp add: list_all_iff)
qed (use assms in simp_all)

lemma generate_token_valid_request:
  assumes "json_loads w (SA_MAPPING w) = Inr parsed_mapping"
    and "request_carries req tfc_token tfc_run_id"
  shows "generate_token w req =
           generate_token_account w parsed_mapping (PStr tfc_token) (PStr tfc_run_id)"
proof -
  from assms(2) obtain request_json where g: "get_json req = Inr request_json"
    and ok: "schema_accepts REQUEST_SCHEMA request_json"
    and t: "py_getitem request_json ''TFC_TOKEN'' = Inr (PStr tfc_token)"
    and r: "py_getitem request_json ''RUN_ID'' = Inr (PStr tfc_run_id)"
    by (auto simp add: request_carries_def split: sum.splits)
  from ok have nn: "request_json \<noteq> PNone" by (cases request_json) simp_all
  show ?thesis
    using assms(1) g ok t r nn
    by (simp add: generate_token_def validate_with_humanized_errors_def)
qed

lemma account_stage_passes:
  assumes "requests_get w ACCOUNT_URL (bearer tfc_token) = Inr resp"
    and "\<not> raise_for_status resp"
    and "json resp = Inr sess_json"
    and "pprint_pformat w sess_json = Inr sess_logged"
    and "py_subscripts sess_json [''data'', ''attributes'', ''is-service-account''] = Inr flag"
    and "py_eq_True flag"
  shows "generate_token_account w parsed_mapping (PStr tfc_token) tfc_run_id =
           calling (HttpGet ACCOUNT_URL (bearer tfc_token))
             (generate_token_run w (bearer tfc_token) parsed_mapping tfc_run_id)"
  using assms by (simp add: generate_token_account_def py_format_def Let_def)

lemma run_stage_passes:
  assumes "requests_get w (RUNS_BASE_URL @ tfc_run_id) hdrs = Inr resp"
    and "json resp = Inr run_json"
    and "pprint_pformat w run_json = Inr run_logged"
    and "py_subscripts run_json [''data'', ''attributes'', ''status''] = Inr run_status"
    and "py_subscripts run_json [''data'', ''relationships'', ''workspace'', ''data'', ''id'']
           = Inr tfc_ws_id"
    and "run_status = PStr ''planning'' \<or> run_status = PStr ''applying''"
  shows "generate_token_run w hdrs parsed_mapping (PStr tfc_run_id) =
           calling (HttpGet (RUNS_BASE_URL @ tfc_run_id) hdrs)
             (generate_token_workspace w hdrs parsed_mapping tfc_ws_id)"
  using assms by (auto simp add: generate_token_run_def)

lemma workspace_stage_passes:
  assumes "requests_get w (WORKSPACE_BASE_URL @ tfc_ws_id) hdrs = Inr resp"
    and "\<not> raise_for_status resp"
    and "json resp = Inr ws_json"
    and "pprint_pformat w ws_json = Inr ws_logged"
    and "py_subscripts ws_json [''data'', ''relationships'', ''organization'', ''data'', ''id'']
           = Inr tfc_org"
    and "py_subscripts ws_json [''data'', ''attributes'', ''name''] = Inr tfc_ws_name"
    and "py_format w tfc_org = Inr org"
    and "py_format w tfc_ws_name = Inr name"
  shows "generate_token_workspace w hdrs parsed_mapping (PStr tfc_ws_id) =
           calling (HttpGet (WORKSPACE_BASE_URL @ tfc_ws_id) hdrs)
             (generate_token_mint w parsed_mapping (org @ ''/'' @ name))"
  using assms by (simp add: generate_token_workspace_def)



lemma run_stage_first_call:
  "take (Suc 0) (fst (generate_token_run w hdrs parsed_mapping (PStr tfc_run_id))) =
     [HttpGet (RUNS_BASE_URL @ tfc_run_id) hdrs]"
  by (simp add: generate_token_run_def calling_def)







lemma generate_token_reaches_run:
  assumes "json_loads w (SA_MAPPING w) = Inr parsed_mapping"
    and "request_carries req tfc_token tfc_run_id"
    and "requests_get w ACCOUNT_URL (bearer tfc_token) = Inr account"
    and "\<not> raise_for_status account"
    and "json account = Inr sess_json"
    and "pprint_pformat w sess_json = Inr sess_logged"
    and "py_subscripts sess_json [''data'', ''attributes'', ''is-service-account''] = Inr flag"
    and "py_eq_True flag"
  shows "generate_token w req =
           calling (HttpGet ACCOUNT_URL (bearer tfc_token))
             (generate_token_run w (bearer tfc_token) parsed_mapping (PStr tfc_run_id))"
proof -
  have "generate_token w req =
          generate_token_account w parsed_mapping (PStr tfc_token) (PStr tfc_run_id)"
    by (rule generate_token_valid_request [OF assms(1,2)])
  also have "\<dots> = calling (HttpGet ACCOUNT_URL (bearer tfc_token))
             (generate_token_run w (bearer tfc_token) parsed_mapping (PStr tfc_run_id))"
    by (rule account_stage_passes [OF assms(3-8)])
  finally show ?thesis .
qed

lemma generate_token_reaches_mint:
  assumes "json_loads w (SA_MAPPING w) = Inr parsed_mapping"
    and "request_carries req tfc_token tfc_run_id"
    and "requests_get w ACCOUNT_URL (bearer tfc_token) = Inr account"
    and "\<not> raise_for_status account"
    and "json account = Inr sess_json"
    and "pprint_pformat w sess_json = Inr sess_logged"
    and "py_subscripts sess_json [''data'', ''attributes'', ''is-service-account''] = Inr flag"
    and "py_eq_True flag"
    and "requests_get w (RUNS_BASE_URL @ tfc_run_id) (bearer tfc_token) = Inr run"
    and "json run = Inr run_json"
    and "pprint_pformat w run_json = Inr run_logged"
    and "py_subscripts run_json [''data'', ''attributes'', ''status''] = Inr run_status"
    and "py_subscripts run_json [''data'', ''relationships'', ''workspace'', ''data'', ''id'']
           = Inr (PStr tfc_ws_id)"
    and "run_status = PStr ''planning'' \<or> run_status = PStr ''applying''"
    and "requests_get w (WORKSPACE_BASE_URL @ tfc_ws_id) (bearer tfc_token) = Inr workspace"
    and "\<not> raise_for_status workspace"
    and "json workspace = Inr ws_json"
    and "pprint_pformat w ws_json = Inr ws_logged"
    and "py_subscripts ws_json [''data'', ''relationships'', ''organization'', ''data'', ''id'']
           = Inr tfc_org"
    and "py_subscripts ws_json [''data'', ''attributes'', ''name''] = Inr tfc_ws_name"
    and "py_format w tfc_org = Inr org"
    and "py_format w tfc_ws_name = Inr name"
  shows "generate_token w req =
           calling (HttpGet ACCOUNT_URL (bearer tfc_token))
             (calling (HttpGet (RUNS_BASE_URL @ tfc_run_id) (bearer tfc_token))
                (calling (HttpGet (WORKSPACE_BASE_URL @ tfc_ws_id) (bearer tfc_token))
                   (generate_token_mint w parsed_mapping (org @ ''/'' @ name))))"
proof -
  have "generate_token w req =
          calling (HttpGet ACCOUNT_URL (bearer tfc_token))
            (generate_token_run w (bearer tfc_token) parsed_mapping (PStr tfc_run_id))"
    by (rule generate_token_reaches_run [OF assms(1-8)])
  also have "generate_token_run w (bearer tfc_token) parsed_mapping (PStr tfc_run_id) =
          calling (HttpGet (RUNS_BASE_URL @ tfc_run_id) (bearer tfc_token))
            (generate_token_workspace w (bearer tfc_token) parsed_mapping (PStr tfc_ws_id))"
    by (rule run_stage_passes [OF assms(9-14)])
  also have "generate_token_workspace w (bearer tfc_token) parsed_mapping (PStr tfc_ws_id) =
          calling (HttpGet (WORKSPACE_BASE_URL @ tfc_ws_id) (bearer tfc_token))
            (generate_token_mint w parsed_mapping (org @ ''/'' @ name))"
    by (rule workspace_stage_passes [OF assms(15-22)])
  finally show ?thesis .
qed

text \<open>
  Every return of the handler with an explicit status code, other than the one for a request
  without a JSON body, has the error shape.
\<close>

lemma BAD_GATEWAY_marked: "errors_marked BAD_GATEWAY"
  by (simp add: BAD_GATEWAY_def error_marked_def)

lemma mint_errors_marked: "errors_marked (snd (generate_token_mint w parsed_mapping ws_slug))"
  by (simp add: generate_token_mint_def error_marked_def split: sum.splits prod.splits)

lemma workspace_errors_marked:
  "errors_marked (snd (generate_token_workspace w hdrs parsed_mapping tfc_ws_id))"
  by (simp add: generate_token_workspace_def calling_def BAD_GATEWAY_marked mint_errors_marked
        del: py_subscripts.simps split: sum.splits option.splits)

lemma run_errors_marked:
  "errors_marked (snd (generate_token_run w hdrs parsed_mapping tfc_run_id))"
  by (simp add: generate_token_run_def calling_def BAD_GATEWAY_marked workspace_errors_marked
        error_marked_def del: py_subscripts.simps split: sum.splits option.splits)

lemma account_errors_marked:
  "errors_marked (snd (generate_token_account w parsed_mapping tfc_token tfc_run_id))"
  by (simp add: generate_token_account_def calling_def BAD_GATEWAY_marked run_errors_marked
        error_marked_def Let_def del: py_subscripts.simps split: sum.splits option.splits)

lemma generate_token_errors_marked:
  assumes "get_json req \<noteq> Inr PNone"
  shows "errors_marked (snd (generate_token w req))"
  using assms
  by (simp add: generate_token_def account_errors_marked error_marked_def
        split: sum.splits option.splits)

section \<open>The claims\<close>

text \<open>
  C1, as the code has it. For every request whose workspace slug is a key of the identity
  mapping, with the token validated, the run eligible and the workspace resolved, the three
  decoded bodies formatted by their debug lines without an exception, and the minting API
  returning an access token: the handler makes the three HTTP calls and then exactly one
  minting call, whose name is the resource name \<open>projects/-/serviceAccounts/\<close> followed by the
  identity reference mapped to the slug and whose scope is the fixed cloud-platform scope; it
  returns the success body with that access token as the non-null \<open>token\<close>, sent with status
  200.
\<close>

theorem mapped_workspace_mints_token:
  assumes "json_loads w (SA_MAPPING w) = Inr (PDict mapping)"
    and "request_carries req tfc_token tfc_run_id"
    and "requests_get w ACCOUNT_URL (bearer tfc_token) = Inr account"
    and "\<not> raise_for_status account"
    and "json account = Inr sess_json"
    and "pprint_pformat w sess_json = Inr sess_logged"
    and "py_subscripts sess_json [''data'', ''attributes'', ''is-service-account''] = Inr flag"
    and "py_eq_True flag"
    and "requests_get w (RUNS_BASE_URL @ tfc_run_id) (bearer tfc_token) = Inr run"
    and "json run = Inr run_json"
    and "pprint_pformat w run_json = Inr run_logged"
    and "py_subscripts run_json [''data'', ''attributes'', ''status''] = Inr run_status"
    and "py_subscripts run_json [''data'', ''relationships'', ''workspace'', ''data'', ''id'']
           = Inr (PStr tfc_ws_id)"
    and "run_status = PStr ''planning'' \<or> run_status = PStr ''applying''"
    and "requests_get w (WORKSPACE_BASE_URL @ tfc_ws_id) (bearer tfc_token) = Inr workspace"
    and "\<not> raise_for_status workspace"
    and "json workspace = Inr ws_json"
    and "pprint_pformat w ws_json = Inr ws_logged"
    and "py_subscripts ws_json [''data'', ''relationships'', ''organization'', ''data'', ''id'']
           = Inr tfc_org"
    and "py_subscripts ws_json [''data'', ''attributes'', ''name''] = Inr tfc_ws_name"
    and "py_format w tfc_org = Inr org"
    and "py_format w tfc_ws_name = Inr name"
    and "ws_slug = org @ ''/'' @ name"
    and "map_of mapping ws_slug = Some mapped"
    and "py_format w mapped = Inr identity"
    and "IAMCredentialsClient w = Inr iam"
    and "iam (''projects/-/serviceAccounts/'' @ identity) GOOGLE_DEFAULT_AUTH_SCOPES
           = Inr access_token"
  shows "generate_token w req =
           ([HttpGet ACCOUNT_URL (bearer tfc_token),
             HttpGet (RUNS_BASE_URL @ tfc_run_id) (bearer tfc_token),
             HttpGet (WORKSPACE_BASE_URL @ tfc_ws_id) (bearer tfc_token),
             GenerateAccessToken (''projects/-/serviceAccounts/'' @ identity)
               GOOGLE_DEFAULT_AUTH_SCOPES],
            Returns (PDict [(''status'', PStr ''success''), (''token'', PStr access_token)]) None) \<and>
         http_status (snd (generate_token w req)) = Some 200 \<and>
         py_getitem (PDict [(''status'', PStr ''success''), (''token'', PStr access_token)]) ''token''
           = Inr (PStr access_token) \<and>
         PStr access_token \<noteq> PNone"
proof -
  from assms(24) have key: "ws_slug \<in> set (map fst mapping)"
    by (metis map_of_eq_None_iff option.distinct(1) set_map)
  have token: "get_sa_token w (PDict mapping) ws_slug =
          ([GenerateAccessToken (''projects/-/serviceAccounts/'' @ identity)
              GOOGLE_DEFAULT_AUTH_SCOPES],
           Inr access_token)"
    using assms(24-27) by (simp add: get_sa_token_def)
  have mint: "generate_token_mint w (PDict mapping) ws_slug =
          ([GenerateAccessToken (''projects/-/serviceAccounts/'' @ identity)
              GOOGLE_DEFAULT_AUTH_SCOPES],
           Returns (PDict [(''status'', PStr ''success''), (''token'', PStr access_token)]) None)"
    using key by (simp add: generate_token_mint_def token)
  have "generate_token w req =
           calling (HttpGet ACCOUNT_URL (bearer tfc_token))
             (calling (HttpGet (RUNS_BASE_URL @ tfc_run_id) (bearer tfc_token))
                (calling (HttpGet (WORKSPACE_BASE_URL @ tfc_ws_id) (bearer tfc_token))
                   (generate_token_mint w (PDict mapping) ws_slug)))"
    unfolding assms(23) by (rule generate_token_reaches_mint [OF assms(1-22)])
  then have "generate_token w req =
           ([HttpGet ACCOUNT_URL (bearer tfc_token),
             HttpGet (RUNS_BASE_URL @ tfc_run_id) (bearer tfc_token),
             HttpGet (WORKSPACE_BASE_URL @ tfc_ws_id) (bearer tfc_token),
             GenerateAccessToken (''projects/-/serviceAccounts/'' @ identity)
               GOOGLE_DEFAULT_AUTH_SCOPES],
            Returns (PDict [(''status'', PStr ''success''), (''token'', PStr access_token)]) None)"
    by (simp only: mint calling_def fst_conv snd_conv)
  then show ?thesis by simp
qed

theorem mapped_workspace_mints_token_witness:
  "generate_token
     (demo_world (Some demo_config) (Inr demo_account) (Inr demo_run) (Inr demo_workspace))
     demo_request =
     ([HttpGet ACCOUNT_URL (bearer ''t1''),
       HttpGet (RUNS_BASE_URL @ ''run-123'') (bearer ''t1''),
       HttpGet (WORKSPACE_BASE_URL @ ''ws-1'') (bearer ''t1''),
       GenerateAccessToken (''projects/-/serviceAccounts/'' @ ''sa1@proj.iam'')
         GOOGLE_DEFAULT_AUTH_SCOPES],
      Returns (PDict [(''status'', PStr ''success''), (''token'', PStr ''ya29.minted'')]) None)"
proof -
  let ?w = "demo_world (Some demo_config) (Inr demo_account) (Inr demo_run) (Inr demo_workspace)"
  have t: "py_eq_True (PBool True)" by simp
  have p: "PStr ''planning'' = PStr ''planning'' \<or> PStr ''planning'' = PStr ''applying''"
    by simp
  have s: "''org-a/prod'' = ''org-a'' @ ''/'' @ ''prod''"
    by simp
  have k: "map_of [(''org-a/prod'', PStr ''sa1@proj.iam'')] ''org-a/prod''
             = Some (PStr ''sa1@proj.iam'')"
    by simp
  have c: "IAMCredentialsClient ?w = Inr (\<lambda>name scope. Inr ''ya29.minted'')"
    by (simp add: demo_world_def)
  have i: "(\<lambda>name scope. Inr ''ya29.minted'' :: exn + string)
             (''projects/-/serviceAccounts/'' @ ''sa1@proj.iam'') GOOGLE_DEFAULT_AUTH_SCOPES
             = Inr ''ya29.minted''"
    by simp
  from mapped_workspace_mints_token
         [OF demo_loads_config [unfolded demo_mapping_def] demo_request_carries
             demo_get_account demo_account_passes demo_session_flag t
             demo_get_run demo_run_passes demo_run_status demo_run_workspace_id p
             demo_get_workspace demo_workspace_passes demo_workspace_org demo_workspace_name
             py_format_str py_format_str s k py_format_str c i]
  show ?thesis
    by (rule conjunct1)
qed

text \<open>
  C1 as stated fails in the scenario of the specification: the slug \<open>org-a/prod\<close> is mapped to
  \<open>sa1@proj.iam\<close>, the token is valid and the run eligible, but the one minting call is not
  invoked with \<open>sa1@proj.iam\<close>: its name is \<open>projects/-/serviceAccounts/sa1@proj.iam\<close>. It also
  fails when the workspace details body of the scenario holds one more key with a value
  nested 400 lists deep: \<open>pprint.pformat\<close> on line 178 raises RecursionError, and there is no
  200 and no minting call.
\<close>

theorem mint_call_name_is_not_the_mapped_reference:
  "json_loads
     (demo_world (Some demo_config) (Inr demo_account) (Inr demo_run) (Inr demo_workspace))
     (SA_MAPPING
       (demo_world (Some demo_config) (Inr demo_account) (Inr demo_run) (Inr demo_workspace)))
     = Inr (PDict [(''org-a/prod'', PStr ''sa1@proj.iam'')]) \<and>
   fst (generate_token
     (demo_world (Some demo_config) (Inr demo_account) (Inr demo_run) (Inr demo_workspace))
     demo_request) =
     [HttpGet ''https://app.terraform.io/api/v2/account/details'' (bearer ''t1''),
      HttpGet ''https://app.terraform.io/api/v2/runs/run-123'' (bearer ''t1''),
      HttpGet ''https://app.terraform.io/api/v2/workspaces/ws-1'' (bearer ''t1''),
      GenerateAccessToken ''projects/-/serviceAccounts/sa1@proj.iam''
        [''https://www.googleapis.com/auth/cloud-platform'']] \<and>
   http_status (snd (generate_token
     (demo_world (Some demo_config) (Inr demo_account) (Inr demo_run) (Inr demo_workspace))
     demo_request)) = Some 200 \<and>
   GenerateAccessToken ''sa1@proj.iam'' [''https://www.googleapis.com/auth/cloud-platform'']
     \<notin> set (fst (generate_token
       (demo_world (Some demo_config) (Inr demo_account) (Inr demo_run) (Inr demo_workspace))
       demo_request)) \<and>
   generate_token
     (demo_world (Some demo_config) (Inr demo_account) (Inr demo_run)
        (Inr \<lparr>status_code = 200,
              json = Inr (with_meta (demo_workspace_json ''prod'') (nest 400 PNone))\<rparr>))
     demo_request =
     ([HttpGet ''https://app.terraform.io/api/v2/account/details'' (bearer ''t1''),
       HttpGet ''https://app.terraform.io/api/v2/runs/run-123'' (bearer ''t1''),
       HttpGet ''https://app.terraform.io/api/v2/workspaces/ws-1'' (bearer ''t1'')],
      Raised RecursionError)"
  by (simp add: handler_defs demo_defs depth_nest)

text \<open>
  C2. The claim holds on every error return of the handler but the first (lemma
  \<open>generate_token_errors_marked\<close>): for a request without a usable JSON body, lines 78 to 80
  return status 400 with a body that has the marker \<open>status: error\<close> and a message, but no
  \<open>token\<close> key at all, where every other error body has \<open>token: None\<close>.
\<close>

theorem missing_body_response_has_no_token_key:
  assumes "json_loads w (SA_MAPPING w) = Inr parsed_mapping"
    and "get_json req = Inr PNone"
  shows "generate_token w req =
           ([], Returns (PDict [(''status'', PStr ''error''),
                                (''message'', PStr ''invalid or missing JSON request body'')])
                        (Some 400)) \<and>
         (\<forall>body. body_of (snd (generate_token w req)) = Some body \<longrightarrow>
            py_getitem body ''status'' = Inr (PStr ''error'') \<and>
            py_getitem body ''message'' = Inr (PStr ''invalid or missing JSON request body'') \<and>
            py_getitem body ''token'' = Inl (KeyError ''token'') \<and>
            py_contains body ''token'' = Inr False)"
  using assms by (simp add: generate_token_def)

theorem missing_body_response_has_no_token_key_witness:
  "generate_token
     (demo_world (Some demo_config) (Inr demo_account) (Inr demo_run) (Inr demo_workspace))
     \<lparr>get_json = Inr PNone\<rparr> =
     ([], Returns (PDict [(''status'', PStr ''error''),
                          (''message'', PStr ''invalid or missing JSON request body'')])
                  (Some 400)) \<and>
   py_contains (PDict [(''status'', PStr ''error''),
                       (''message'', PStr ''invalid or missing JSON request body'')]) ''token''
     = Inr False"
proof -
  have g: "get_json \<lparr>get_json = Inr PNone\<rparr> = Inr PNone"
    by simp
  have b: "py_contains (PDict [(''status'', PStr ''error''),
                       (''message'', PStr ''invalid or missing JSON request body'')]) ''token''
     = Inr False"
    by simp
  from missing_body_response_has_no_token_key [OF demo_loads_config g, THEN conjunct1] b
  show ?thesis
    by (rule conjI)
qed




text \<open>
  C4, as the code has it. For every account details answer on whose body the decoder raises
  JSONDecodeError, \<open>generate_token\<close> returns 502 Bad Gateway, unless the status is 401, which
  is answered with 401 before the body is read. Under a status that is no HTTP error, no
  other failure on the body gives a 502: another exception of the decoder (RecursionError,
  ValueError), an exception of the debug line of line 124 on the decoded body, and the lookup
  error (KeyError or TypeError) for a body that is valid JSON but lacks
  \<open>data.attributes.is-service-account\<close> all leave the handler uncaught.
\<close>

theorem account_body_not_json_is_bad_gateway:
  assumes "json_loads w (SA_MAPPING w) = Inr parsed_mapping"
    and "request_carries req tfc_token tfc_run_id"
    and "requests_get w ACCOUNT_URL (bearer tfc_token) = Inr account"
  shows "(json account = Inl JSONDecodeError \<and> status_code account \<noteq> 401 \<longrightarrow>
            generate_token w req = ([HttpGet ACCOUNT_URL (bearer tfc_token)], BAD_GATEWAY) \<and>
            http_status (snd (generate_token w req)) = Some 502) \<and>
         (\<not> raise_for_status account \<and> json account = Inl e \<and> e \<noteq> JSONDecodeError \<longrightarrow>
            generate_token w req = ([HttpGet ACCOUNT_URL (bearer tfc_token)], Raised e) \<and>
            http_status (snd (generate_token w req)) = None) \<and>
         (\<not> raise_for_status account \<and> json account = Inr sess_json \<and>
          pprint_pformat w sess_json = Inl e \<longrightarrow>
            generate_token w req = ([HttpGet ACCOUNT_URL (bearer tfc_token)], Raised e) \<and>
            http_status (snd (generate_token w req)) = None) \<and>
         (\<not> raise_for_status account \<and> json account = Inr sess_json \<and>
          pprint_pformat w sess_json = Inr sess_logged \<and>
          py_subscripts sess_json [''data'', ''attributes'', ''is-service-account''] = Inl e \<longrightarrow>
            generate_token w req = ([HttpGet ACCOUNT_URL (bearer tfc_token)], Raised e) \<and>
            http_status (snd (generate_token w req)) = None)"
proof -
  note start = generate_token_valid_request [OF assms(1,2)]
  have not_json: "generate_token w req = ([HttpGet ACCOUNT_URL (bearer tfc_token)], BAD_GATEWAY)"
    if "json account = Inl JSONDecodeError" "status_code account \<noteq> 401"
    using assms(3) that
    by (simp add: start generate_token_account_def py_format_def Let_def calling_def)
  have other: "generate_token w req = ([HttpGet ACCOUNT_URL (bearer tfc_token)], Raised e)"
    if "\<not> raise_for_status account" "json account = Inl e" "e \<noteq> JSONDecodeError"
    using assms(3) that
    by (simp add: start generate_token_account_def py_format_def Let_def calling_def)
  have no_log: "generate_token w req = ([HttpGet ACCOUNT_URL (bearer tfc_token)], Raised e)"
    if "\<not> raise_for_status account" "json account = Inr sess_json"
       "pprint_pformat w sess_json = Inl e"
    using assms(3) that
    by (simp add: start generate_token_account_def py_format_def Let_def calling_def)
  have no_flag: "generate_token w req = ([HttpGet ACCOUNT_URL (bearer tfc_token)], Raised e)"
    if "\<not> raise_for_status account" "json account = Inr sess_json"
       "pprint_pformat w sess_json = Inr sess_logged"
       "py_subscripts sess_json [''data'', ''attributes'', ''is-service-account''] = Inl e"
    using assms(3) that
    by (simp add: start generate_token_account_def py_format_def Let_def calling_def)
  have bg: "http_status BAD_GATEWAY = Some 502"
    by (simp add: BAD_GATEWAY_def)
  show ?thesis
    using not_json other no_log no_flag bg by (simp del: py_subscripts.simps)
qed

theorem account_body_not_json_is_bad_gateway_witness:
  "(generate_token
     (demo_world (Some demo_config) (Inr \<lparr>status_code = 200, json = Inl JSONDecodeError\<rparr>)
        (Inr demo_run) (Inr demo_workspace))
     demo_request = ([HttpGet ACCOUNT_URL (bearer ''t1'')], BAD_GATEWAY) \<and>
    http_status (snd (generate_token
     (demo_world (Some demo_config) (Inr \<lparr>status_code = 200, json = Inl JSONDecodeError\<rparr>)
        (Inr demo_run) (Inr demo_workspace))
     demo_request)) = Some 502) \<and>
   (generate_token
     (demo_world (Some demo_config) (Inr \<lparr>status_code = 200, json = Inr (PDict [])\<rparr>)
        (Inr demo_run) (Inr demo_workspace))
     demo_request = ([HttpGet ACCOUNT_URL (bearer ''t1'')], Raised (KeyError ''data'')) \<and>
    http_status (snd (generate_token
     (demo_world (Some demo_config) (Inr \<lparr>status_code = 200, json = Inr (PDict [])\<rparr>)
        (Inr demo_run) (Inr demo_workspace))
     demo_request)) = None)"
proof -
  have a: "json \<lparr>status_code = 200, json = Inl JSONDecodeError\<rparr> = Inl JSONDecodeError"
    and b: "status_code \<lparr>status_code = 200, json = Inl JSONDecodeError\<rparr> \<noteq> 401"
    by simp_all
  have c: "\<not> raise_for_status \<lparr>status_code = 200, json = Inr (PDict [])\<rparr>"
    and d: "json \<lparr>status_code = 200, json = Inr (PDict [])\<rparr> = Inr (PDict [])"
    and e: "py_subscripts (PDict []) [''data'', ''attributes'', ''is-service-account'']
              = Inl (KeyError ''data'')"
    by (simp_all add: raise_for_status_def)
  have l: "pprint_pformat
             (demo_world (Some demo_config) (Inr \<lparr>status_code = 200, json = Inr (PDict [])\<rparr>)
                (Inr demo_run) (Inr demo_workspace)) (PDict []) = Inr ''formatted''"
    by (rule demo_pformat_shallow) simp
  note t = account_body_not_json_is_bad_gateway
             [OF demo_loads_config demo_request_carries demo_get_account]
  from t [THEN conjunct1, THEN mp, OF conjI [OF a b]]
       t [THEN conjunct2, THEN conjunct2, THEN conjunct2, THEN mp,
          OF conjI [OF c conjI [OF d conjI [OF l e]]]]
  show ?thesis
    by (rule conjI)
qed

text \<open>
  C4 as stated fails for an account details answer with status 200 and the body \<open>{}\<close>, which
  is valid JSON without \<open>data.attributes.is-service-account\<close>: the handler raises KeyError
  and returns no 502. It also fails for a body that is no JSON when the decoder gives up on
  it with a RecursionError, as on a long run of opening brackets, which line 120 does not
  catch.
\<close>

theorem account_body_without_flag_raises:
  "py_subscripts (PDict []) [''data'', ''attributes'', ''is-service-account'']
     = Inl (KeyError ''data'') \<and>
   generate_token
     (demo_world (Some demo_config) (Inr \<lparr>status_code = 200, json = Inr (PDict [])\<rparr>)
        (Inr demo_run) (Inr demo_workspace))
     demo_request =
     ([HttpGet ''https://app.terraform.io/api/v2/account/details'' (bearer ''t1'')],
      Raised (KeyError ''data'')) \<and>
   http_status (snd (generate_token
     (demo_world (Some demo_config) (Inr \<lparr>status_code = 200, json = Inr (PDict [])\<rparr>)
        (Inr demo_run) (Inr demo_workspace))
     demo_request)) \<noteq> Some 502 \<and>
   generate_token
     (demo_world (Some demo_config) (Inr \<lparr>status_code = 200, json = Inl RecursionError\<rparr>)
        (Inr demo_run) (Inr demo_workspace))
     demo_request =
     ([HttpGet ''https://app.terraform.io/api/v2/account/details'' (bearer ''t1'')],
      Raised RecursionError)"
  by (simp add: handler_defs demo_defs)

text \<open>
  C5, as the code has it. For every account details call that returns an HTTP error status
  (400 to 599): if the status is 401 the response is exactly HTTP 401 with \<open>token\<close> null; for
  any other such status it is the fixed 502 Bad Gateway response, which holds nothing of what
  the upstream sent. In both cases the account details call is the only outbound call. When
  the call itself raises (a network error), the exception leaves the handler uncaught. A
  status below 400 or from 600 on is no failure for the handler: with a body that decodes
  and has the service account flag equal to \<open>True\<close>, it goes on to the run details call.
\<close>

theorem account_http_error_statuses:
  assumes "json_loads w (SA_MAPPING w) = Inr parsed_mapping"
    and "request_carries req tfc_token tfc_run_id"
  shows "(requests_get w ACCOUNT_URL (bearer tfc_token) = Inr account \<and>
          400 \<le> status_code account \<and> status_code account < 600 \<and>
          status_code account = 401 \<longrightarrow>
            generate_token w req =
              ([HttpGet ACCOUNT_URL (bearer tfc_token)],
               Returns (PDict [(''status'', PStr ''error''),
                               (''msg'', PStr ''Unauthorized''),
                               (''token'', PNone)]) (Some 401))) \<and>
         (requests_get w ACCOUNT_URL (bearer tfc_token) = Inr account \<and>
          400 \<le> status_code account \<and> status_code account < 600 \<and>
          status_code account \<noteq> 401 \<longrightarrow>
            generate_token w req =
              ([HttpGet ACCOUNT_URL (bearer tfc_token)],
               Returns (PDict [(''status'', PStr ''error''),
                               (''msg'', PStr ''Bad Gateway''),
                               (''token'', PNone)]) (Some 502))) \<and>
         (requests_get w ACCOUNT_URL (bearer tfc_token) = Inl e \<longrightarrow>
            generate_token w req = ([HttpGet ACCOUNT_URL (bearer tfc_token)], Raised e) \<and>
            http_status (snd (generate_token w req)) = None) \<and>
         (requests_get w ACCOUNT_URL (bearer tfc_token) = Inr account \<and>
          (status_code account < 400 \<or> 600 \<le> status_code account) \<and>
          json account = Inr sess_json \<and> pprint_pformat w sess_json = Inr sess_logged \<and>
          py_subscripts sess_json [''data'', ''attributes'', ''is-service-account''] = Inr flag \<and>
          py_eq_True flag \<longrightarrow>
            generate_token w req =
              calling (HttpGet ACCOUNT_URL (bearer tfc_token))
                (generate_token_run w (bearer tfc_token) parsed_mapping (PStr tfc_run_id)) \<and>
            take 2 (fst (generate_token w req)) =
              [HttpGet ACCOUNT_URL (bearer tfc_token),
               HttpGet (RUNS_BASE_URL @ tfc_run_id) (bearer tfc_token)])"
proof -
  note start = generate_token_valid_request [OF assms(1,2)]
  have unauthorized: "generate_token w req =
              ([HttpGet ACCOUNT_URL (bearer tfc_token)],
               Returns (PDict [(''status'', PStr ''error''),
                               (''msg'', PStr ''Unauthorized''),
                               (''token'', PNone)]) (Some 401))"
    if "requests_get w ACCOUNT_URL (bearer tfc_token) = Inr account"
       "status_code account = 401"
    using that
    by (simp add: start generate_token_account_def py_format_def Let_def calling_def
          raise_for_status_def)
  have gateway: "generate_token w req =
              ([HttpGet ACCOUNT_URL (bearer tfc_token)],
               Returns (PDict [(''status'', PStr ''error''),
                               (''msg'', PStr ''Bad Gateway''),
                               (''token'', PNone)]) (Some 502))"
    if "requests_get w ACCOUNT_URL (bearer tfc_token) = Inr account"
       "400 \<le> status_code account" "status_code account < 600" "status_code account \<noteq> 401"
    using that
    by (simp add: start generate_token_account_def py_format_def Let_def calling_def
          raise_for_status_def BAD_GATEWAY_def)
  have network: "generate_token w req = ([HttpGet ACCOUNT_URL (bearer tfc_token)], Raised e)"
    if "requests_get w ACCOUNT_URL (bearer tfc_token) = Inl e"
    using that
    by (simp add: start generate_token_account_def py_format_def Let_def calling_def)
  have passes: "generate_token w req =
              calling (HttpGet ACCOUNT_URL (bearer tfc_token))
                (generate_token_run w (bearer tfc_token) parsed_mapping (PStr tfc_run_id))"
    if "requests_get w ACCOUNT_URL (bearer tfc_token) = Inr account"
       "status_code account < 400 \<or> 600 \<le> status_code account"
       "json account = Inr sess_json" "pprint_pformat w sess_json = Inr sess_logged"
       "py_subscripts sess_json [''data'', ''attributes'', ''is-service-account''] = Inr flag"
       "py_eq_True flag"
  proof -
    from that(2) have ok: "\<not> raise_for_status account"
      by (auto simp add: raise_for_status_def)
    show ?thesis
      unfolding start
      by (rule account_stage_passes [OF that(1) ok that(3-6)])
  qed
  have calls: "take 2 (fst (calling (HttpGet ACCOUNT_URL (bearer tfc_token))
                (generate_token_run w (bearer tfc_token) parsed_mapping (PStr tfc_run_id)))) =
              [HttpGet ACCOUNT_URL (bearer tfc_token),
               HttpGet (RUNS_BASE_URL @ tfc_run_id) (bearer tfc_token)]"
    by (simp add: generate_token_run_def calling_def)
  show ?thesis
  proof (intro conjI impI)
    assume "requests_get w ACCOUNT_URL (bearer tfc_token) = Inr account \<and>
          400 \<le> status_code account \<and> status_code account < 600 \<and>
          status_code account = 401"
    then show "generate_token w req =
              ([HttpGet ACCOUNT_URL (bearer tfc_token)],
               Returns (PDict [(''status'', PStr ''error''),
                               (''msg'', PStr ''Unauthorized''),
                               (''token'', PNone)]) (Some 401))"
      using unauthorized by blast
  next
    assume "requests_get w ACCOUNT_URL (bearer tfc_token) = Inr account \<and>
          400 \<le> status_code account \<and> status_code account < 600 \<and>
          status_code account \<noteq> 401"
    then show "generate_token w req =
              ([HttpGet ACCOUNT_URL (bearer tfc_token)],
               Returns (PDict [(''status'', PStr ''error''),
                               (''msg'', PStr ''Bad Gateway''),
                               (''token'', PNone)]) (Some 502))"
      using gateway by blast
  next
    assume n: "requests_get w ACCOUNT_URL (bearer tfc_token) = Inl e"
    show "generate_token w req = ([HttpGet ACCOUNT_URL (bearer tfc_token)], Raised e)"
      by (rule network [OF n])
    show "http_status (snd (generate_token w req)) = None"
      unfolding network [OF n] by simp
  next
    assume p: "requests_get w ACCOUNT_URL (bearer tfc_token) = Inr account \<and>
          (status_code account < 400 \<or> 600 \<le> status_code account) \<and>
          json account = Inr sess_json \<and> pprint_pformat w sess_json = Inr sess_logged \<and>
          py_subscripts sess_json [''data'', ''attributes'', ''is-service-account''] = Inr flag \<and>
          py_eq_True flag"
    then have g: "generate_token w req =
              calling (HttpGet ACCOUNT_URL (bearer tfc_token))
                (generate_token_run w (bearer tfc_token) parsed_mapping (PStr tfc_run_id))"
      using passes by blast
    show "generate_token w req =
              calling (HttpGet ACCOUNT_URL (bearer tfc_token))
                (generate_token_run w (bearer tfc_token) parsed_mapping (PStr tfc_run_id))"
      by (rule g)
    show "take 2 (fst (generate_token w req)) =
              [HttpGet ACCOUNT_URL (bearer tfc_token),
               HttpGet (RUNS_BASE_URL @ tfc_run_id) (bearer tfc_token)]"
      unfolding g by (rule calls)
  qed
qed

theorem account_http_error_statuses_witness:
  "generate_token
     (demo_world (Some demo_config) (Inr \<lparr>status_code = 401, json = Inl JSONDecodeError\<rparr>)
        (Inr demo_run) (Inr demo_workspace))
     demo_request =
     ([HttpGet ACCOUNT_URL (bearer ''t1'')],
      Returns (PDict [(''status'', PStr ''error''),
                      (''msg'', PStr ''Unauthorized''),
                      (''token'', PNone)]) (Some 401)) \<and>
   generate_token
     (demo_world (Some demo_config)
        (Inr \<lparr>status_code = 503, json = Inr (PDict [(''errors'', PList [PStr ''maintenance''])])\<rparr>)
        (Inr demo_run) (Inr demo_workspace))
     demo_request =
     ([HttpGet ACCOUNT_URL (bearer ''t1'')],
      Returns (PDict [(''status'', PStr ''error''),
                      (''msg'', PStr ''Bad Gateway''),
                      (''token'', PNone)]) (Some 502)) \<and>
   generate_token
     (demo_world (Some demo_config) (Inl RequestException) (Inr demo_run) (Inr demo_workspace))
     demo_request = ([HttpGet ACCOUNT_URL (bearer ''t1'')], Raised RequestException) \<and>
   take 2 (fst (generate_token
     (demo_world (Some demo_config)
        (Inr \<lparr>status_code = 600, json = Inr (demo_session_json (PBool True))\<rparr>)
        (Inr demo_run) (Inr demo_workspace))
     demo_request)) =
     [HttpGet ACCOUNT_URL (bearer ''t1''), HttpGet (RUNS_BASE_URL @ ''run-123'') (bearer ''t1'')]"
proof -
  have a: "400 \<le> status_code \<lparr>status_code = 401, json = Inl JSONDecodeError\<rparr>"
    and b: "status_code \<lparr>status_code = 401, json = Inl JSONDecodeError\<rparr> < 600"
    and c: "status_code \<lparr>status_code = 401, json = Inl JSONDecodeError\<rparr> = 401"
    by simp_all
  have d: "400 \<le> status_code
             \<lparr>status_code = 503, json = Inr (PDict [(''errors'', PList [PStr ''maintenance''])])\<rparr>"
    and e: "status_code
             \<lparr>status_code = 503, json = Inr (PDict [(''errors'', PList [PStr ''maintenance''])])\<rparr>
             < 600"
    and f: "status_code
             \<lparr>status_code = 503, json = Inr (PDict [(''errors'', PList [PStr ''maintenance''])])\<rparr>
             \<noteq> 401"
    by simp_all
  have g: "status_code \<lparr>status_code = 600, json = Inr (demo_session_json (PBool True))\<rparr> < 400 \<or>
           600 \<le> status_code \<lparr>status_code = 600, json = Inr (demo_session_json (PBool True))\<rparr>"
    and h: "json \<lparr>status_code = 600, json = Inr (demo_session_json (PBool True))\<rparr>
              = Inr (demo_session_json (PBool True))"
    and t: "py_eq_True (PBool True)"
    by simp_all
  note s = account_http_error_statuses [OF demo_loads_config demo_request_carries]
  from s [THEN conjunct1, THEN mp, OF conjI [OF demo_get_account conjI [OF a conjI [OF b c]]]]
       s [THEN conjunct2, THEN conjunct1, THEN mp,
          OF conjI [OF demo_get_account conjI [OF d conjI [OF e f]]]]
       s [THEN conjunct2, THEN conjunct2, THEN conjunct1, THEN mp, OF demo_get_account,
          THEN conjunct1]
       s [THEN conjunct2, THEN conjunct2, THEN conjunct2, THEN mp,
          OF conjI [OF demo_get_account conjI [OF g conjI [OF h
               conjI [OF demo_account_passes(3) conjI [OF demo_session_flag t]]]]],
          THEN conjunct2]
  show ?thesis
    by (intro conjI)
qed

text \<open>
  C5 as stated fails in two ways. When \<open>requests.get\<close> itself raises on the account details
  call (a network error), nothing catches the exception: there is no 502. When the call
  answers with a status that is neither 2xx nor an HTTP error for \<open>raise_for_status\<close>, here
  300, the handler treats the token as validated and goes on; with the scenario's other
  answers it mints a token and returns 200.
\<close>

theorem account_failure_is_not_always_bad_gateway:
  "generate_token
     (demo_world (Some demo_config) (Inl RequestException) (Inr demo_run) (Inr demo_workspace))
     demo_request =
     ([HttpGet ''https://app.terraform.io/api/v2/account/details'' (bearer ''t1'')],
      Raised RequestException) \<and>
   http_status (snd (generate_token
     (demo_world (Some demo_config) (Inl RequestException) (Inr demo_run) (Inr demo_workspace))
     demo_request)) \<noteq> Some 502 \<and>
   http_status (snd (generate_token
     (demo_world (Some demo_config)
        (Inr \<lparr>status_code = 300, json = Inr (demo_session_json (PBool True))\<rparr>)
        (Inr demo_run) (Inr demo_workspace))
     demo_request)) = Some 200"
  by (simp add: handler_defs demo_defs)




text \<open>
  C7, as the code has it. For every token that the account details call validates (the call
  returns, its status is no HTTP error and its body decodes), whose decoded response is
  formatted by the debug line of line 124 without an exception and has
  \<open>data.attributes.is-service-account\<close> equal to false, \<open>generate_token\<close> returns HTTP 400
  with the message that the token does not belong to a service account, after the account
  details call alone.
\<close>

theorem non_service_account_token_rejected:
  assumes "json_loads w (SA_MAPPING w) = Inr parsed_mapping"
    and "request_carries req tfc_token tfc_run_id"
    and "requests_get w ACCOUNT_URL (bearer tfc_token) = Inr resp"
    and "\<not> raise_for_status resp"
    and "json resp = Inr sess_json"
    and "pprint_pformat w sess_json = Inr sess_logged"
    and "py_subscripts sess_json [''data'', ''attributes'', ''is-service-account'']
           = Inr (PBool False)"
  shows "generate_token w req =
           ([HttpGet ACCOUNT_URL (bearer tfc_token)],
            Returns (PDict [(''status'', PStr ''error''),
                            (''msg'', PStr ''Token does not belong to a service account''),
                            (''token'', PNone)]) (Some 400)) \<and>
         http_status (snd (generate_token w req)) = Some 400"
  using assms(3-7)
  by (simp add: generate_token_valid_request [OF assms(1,2)] generate_token_account_def
        py_format_def Let_def calling_def)

theorem non_service_account_token_rejected_witness:
  "generate_token
     (demo_world (Some demo_config)
        (Inr \<lparr>status_code = 200, json = Inr (demo_session_json (PBool False))\<rparr>)
        (Inr demo_run) (Inr demo_workspace))
     demo_request =
     ([HttpGet ACCOUNT_URL (bearer ''t1'')],
      Returns (PDict [(''status'', PStr ''error''),
                      (''msg'', PStr ''Token does not belong to a service account''),
                      (''token'', PNone)]) (Some 400))"
proof -
  have s: "\<not> raise_for_status \<lparr>status_code = 200, json = Inr (demo_session_json (PBool False))\<rparr>"
    by (simp add: raise_for_status_def)
  have j: "json \<lparr>status_code = 200, json = Inr (demo_session_json (PBool False))\<rparr>
             = Inr (demo_session_json (PBool False))"
    by simp
  have d: "depth (PBool False) < 300"
    by simp
  from non_service_account_token_rejected
         [OF demo_loads_config demo_request_carries demo_get_account s j
             demo_pformat_session [OF d] demo_session_flag]
  show ?thesis
    by (rule conjunct1)
qed

text \<open>
  C7 as stated fails for an account details body with \<open>is-service-account\<close> false and one
  more key whose value is nested 400 lists deep: the body decodes and the flag is false, but
  \<open>pprint.pformat\<close> on line 124 raises RecursionError before the test of line 127, so there
  is no 400.
\<close>

theorem deep_account_body_raises_before_flag_test:
  "py_subscripts (with_meta (demo_session_json (PBool False)) (nest 400 PNone))
     [''data'', ''attributes'', ''is-service-account''] = Inr (PBool False) \<and>
   generate_token
     (demo_world (Some demo_config)
        (Inr \<lparr>status_code = 200,
              json = Inr (with_meta (demo_session_json (PBool False)) (nest 400 PNone))\<rparr>)
        (Inr demo_run) (Inr demo_workspace))
     demo_request =
     ([HttpGet ''https://app.terraform.io/api/v2/account/details'' (bearer ''t1'')],
      Raised RecursionError) \<and>
   http_status (snd (generate_token
     (demo_world (Some demo_config)
        (Inr \<lparr>status_code = 200,
              json = Inr (with_meta (demo_session_json (PBool False)) (nest 400 PNone))\<rparr>)
        (Inr demo_run) (Inr demo_workspace))
     demo_request)) \<noteq> Some 400"
  by (simp add: handler_defs demo_defs depth_nest)




text \<open>
  C9. If the value of \<open>SA_MAPPING_CONFIG\<close> is not valid JSON, so that \<open>json.loads\<close> raises
  JSONDecodeError, every invocation of \<open>generate_token\<close>, whatever the request, ends in an
  uncaught UnboundLocalError for \<open>parsed_mapping\<close> before any outbound call: it has no status
  and no body, in particular not the 400 that an empty mapping gives for a request without a
  body.
\<close>

theorem invalid_mapping_config_raises:
  assumes "json_loads w (SA_MAPPING w) = Inl JSONDecodeError"
  shows "generate_token w req = ([], Raised (UnboundLocalError ''parsed_mapping'')) \<and>
         http_status (snd (generate_token w req)) = None \<and>
         body_of (snd (generate_token w req)) = None"
  using assms by (simp add: generate_token_def)

theorem invalid_mapping_config_raises_witness:
  "generate_token (demo_world (Some ''{oops'') (Inr demo_account) (Inr demo_run) (Inr demo_workspace))
     demo_request = ([], Raised (UnboundLocalError ''parsed_mapping'')) \<and>
   http_status (snd (generate_token
     (demo_world None (Inr demo_account) (Inr demo_run) (Inr demo_workspace))
     \<lparr>get_json = Inr PNone\<rparr>)) = Some 400"
proof -
  let ?w = "demo_world (Some ''{oops'') (Inr demo_account) (Inr demo_run) (Inr demo_workspace)"
  have h: "json_loads ?w (SA_MAPPING ?w) = Inl JSONDecodeError"
    by (simp add: demo_defs SA_MAPPING_def)
  have e: "http_status (snd (generate_token
     (demo_world None (Inr demo_account) (Inr demo_run) (Inr demo_workspace))
     \<lparr>get_json = Inr PNone\<rparr>)) = Some 400"
    by (simp add: generate_token_def demo_loads_default)
  from invalid_mapping_config_raises [OF h, of demo_request, THEN conjunct1] e
  show ?thesis
    by (rule conjI)
qed




end
